theory Spec2Isabelle
  imports Main "HOL-Library.List_Lexorder" "HOL-Library.Multiset"
begin

section \<open>Python values used by pokerok.py\<close>

text \<open>
  A Python \<open>str\<close> is a sequence of Unicode code points, and two strings compare
  lexicographically by code point; this is the order \<open>List_Lexorder\<close> puts on
  \<open>nat list\<close>. The helper \<open>ascii\<close> turns an ASCII literal into its code points.
\<close>

type_synonym pystr = "nat list"

definition ascii :: "string \<Rightarrow> pystr" where
  "ascii s = map of_char s"

text \<open>
  A \<open>dict\<close> keeps its keys in insertion order, and \<open>d[k] = v\<close> on a key that is present
  replaces the value in place. So a dict is an association list with distinct keys;
  \<open>setitem\<close> is \<open>d[k] = v\<close>, \<open>map_of d k\<close> is \<open>d.get(k)\<close>, \<open>map fst d\<close> is
  \<open>d.keys()\<close>.
\<close>

type_synonym dict = "(pystr \<times> pystr) list"

fun setitem :: "dict \<Rightarrow> pystr \<Rightarrow> pystr \<Rightarrow> dict" where
  "setitem [] k v = [(k, v)]"
| "setitem ((k', v') # d) k v = (if k' = k then (k, v) # d else (k', v') # setitem d k v)"

text \<open>
  The exceptions the script tells apart: \<open>msilib.MSIError\<close>, and every other subclass of
  \<open>Exception\<close>. An \<open>MSIError m\<close> or \<open>Exception m\<close> carries the text \<open>m\<close> that \<open>str(e)\<close>
  gives; \<open>KeyError k\<close> is what \<open>d[k]\<close> raises on a missing key, and its \<open>str(e)\<close> is
  \<open>repr(k)\<close>.
\<close>

datatype exn = MSIError pystr | KeyError pystr | Exception pystr

fun str_exn :: "(pystr \<Rightarrow> pystr) \<Rightarrow> exn \<Rightarrow> pystr" where
  "str_exn repr (MSIError m) = m"
| "str_exn repr (KeyError k) = repr k"
| "str_exn repr (Exception m) = m"

text \<open>
  The two output streams, as the characters written so far. \<open>print(s)\<close> writes \<open>s\<close> and a
  newline to standard output; \<open>sys.stderr.write(s)\<close> writes \<open>s\<close> to standard error.
\<close>

record io =
  stdout :: pystr
  stderr :: pystr

definition print :: "pystr \<Rightarrow> io \<Rightarrow> io" where
  "print s io = io\<lparr>stdout := stdout io @ s @ [10]\<rparr>"

definition stderr_write :: "pystr \<Rightarrow> io \<Rightarrow> io" where
  "stderr_write s io = io\<lparr>stderr := stderr io @ s\<rparr>"

text \<open>The format specification \<open>{label:14}\<close>: a string is padded on the right to width 14.\<close>

definition format_width :: "nat \<Rightarrow> pystr \<Rightarrow> pystr" where
  "format_width n s = s @ replicate (n - length s) 32"

section \<open>The library objects of msilib, as the script uses them\<close>

text \<open>
  The installer database library is outside the script. Each of its objects is modelled
  by what its calls return or raise: a record by \<open>GetString\<close>, a view by the outcome of
  \<open>Execute\<close> and by the outcomes of the successive calls of \<open>Fetch\<close> (after the last of
  them \<open>Fetch\<close> returns \<open>None\<close>), a database by \<open>OpenView\<close> on a query text.
\<close>

datatype msi_record = Record (GetString: "nat \<Rightarrow> exn + pystr")

datatype view = View (Execute: "exn + unit") (Fetch: "(exn + msi_record) list")

datatype database = Database (OpenView: "pystr \<Rightarrow> exn + view")

text \<open>
  What a run depends on besides the command line: the built-in \<open>str.lower\<close> and \<open>repr\<close>,
  the file system tests \<open>os.path.exists\<close> and \<open>os.path.isfile\<close>, and
  \<open>msilib.OpenDatabase\<close> (opened read-only).
\<close>

record world =
  str_lower :: "pystr \<Rightarrow> pystr"
  repr :: "pystr \<Rightarrow> pystr"
  os_path_exists :: "pystr \<Rightarrow> bool"
  os_path_isfile :: "pystr \<Rightarrow> bool"
  msilib_OpenDatabase :: "pystr \<Rightarrow> exn + database"

section \<open>parse_args\<close>

text \<open>
  The parser has one positional argument \<open>msi_path\<close> with \<open>nargs="?"\<close> and
  \<open>default="pokerok.msi"\<close>: the command line gives the argument or omits it. (On \<open>-h\<close> or
  on a command line it rejects, argparse ends the process itself before \<open>main\<close> goes on;
  those runs are not runs of the code below.)
\<close>

record namespace =
  msi_path :: pystr

definition parse_args :: "pystr option \<Rightarrow> namespace" where
  "parse_args positional =
     \<lparr>msi_path = (case positional of None \<Rightarrow> ascii ''pokerok.msi'' | Some p \<Rightarrow> p)\<rparr>"

section \<open>read_msi_properties\<close>

definition open_failed :: pystr where
  "open_failed =
     [1053, 1077, 32, 1091, 1076, 1072, 1083, 1086, 1089, 1100, 32, 1086, 1090, 1082, 1088,
      1099, 1090, 1100, 32, 1090, 1072, 1073, 1083, 1080, 1094, 1091, 32]
     @ ascii ''Property'' @ [58, 32]"

text \<open>
  Lines 38 to 43: \<open>OpenView\<close> and \<open>Execute\<close> run inside \<open>try\<close>; an \<open>MSIError\<close> of either is
  raised again as an \<open>MSIError\<close> whose text is the literal of line 43 followed by the
  text of the first, and any other exception passes through.
\<close>

fun reraise :: "exn \<Rightarrow> exn" where
  "reraise (MSIError m) = MSIError (open_failed @ m)"
| "reraise e = e"

definition open_property_view :: "database \<Rightarrow> exn + view" where
  "open_property_view db =
     (case OpenView db (ascii ''SELECT * FROM Property'') of
        Inl e \<Rightarrow> Inl (reraise e)
      | Inr view \<Rightarrow>
          (case Execute view of
             Inl e \<Rightarrow> Inl (reraise e)
           | Inr _ \<Rightarrow> Inr view))"

text \<open>
  Lines 47 to 54, the loop \<open>while True\<close>: it ends when \<open>Fetch\<close> returns \<open>None\<close>, that is
  when the outcomes of \<open>Fetch\<close> are used up, or when a call raises.
\<close>

fun fetch_loop :: "(exn + msi_record) list \<Rightarrow> dict \<Rightarrow> exn + dict" where
  "fetch_loop [] properties = Inr properties"
| "fetch_loop (Inl e # later) properties = Inl e"
| "fetch_loop (Inr rcd # later) properties =
     (case GetString rcd 1 of
        Inl e \<Rightarrow> Inl e
      | Inr name \<Rightarrow>
          (case GetString rcd 2 of
             Inl e \<Rightarrow> Inl e
           | Inr val \<Rightarrow> fetch_loop later (setitem properties name val)))"

definition read_msi_properties :: "world \<Rightarrow> pystr \<Rightarrow> exn + dict" where
  "read_msi_properties w path =
     (case msilib_OpenDatabase w path of
        Inl e \<Rightarrow> Inl e
      | Inr db \<Rightarrow>
          (case open_property_view db of
             Inl e \<Rightarrow> Inl e
           | Inr view \<Rightarrow> fetch_loop (Fetch view) []))"

section \<open>The reporter\<close>

definition key_header :: pystr where
  "key_header =
     ascii ''==='' @
     [32, 1054, 1089, 1085, 1086, 1074, 1085, 1072, 1103, 32, 1080, 1085, 1092, 1086, 1088,
      1084, 1072, 1094, 1080, 1103, 32, 1086, 32, 1087, 1088, 1086, 1076, 1091, 1082, 1090,
      1077, 32]
     @ ascii ''===''"

definition not_specified :: pystr where
  "not_specified = [1085, 1077, 32, 1091, 1082, 1072, 1079, 1072, 1085, 1086]"

definition all_header :: pystr where
  "all_header =
     ascii ''==='' @
     [32, 1042, 1089, 1077, 32, 1089, 1074, 1086, 1081, 1089, 1090, 1074, 1072, 32]
     @ ascii ''MSI ('' @ [1090, 1072, 1073, 1083, 1080, 1094, 1072, 32]
     @ ascii ''Property) ===''"

definition keys :: "(pystr \<times> pystr) list" where
  "keys =
     [(ascii ''ProductName'', ascii ''ProductName''),
      (ascii ''ProductCode'', ascii ''ProductCode''),
      (ascii ''ProductVersion'', ascii ''ProductVersion''),
      (ascii ''Manufacturer'', ascii ''Manufacturer'')]"

text \<open>
  The reporter's functions get the dict by reference and return nothing. Each is a
  function of the dict and the streams that returns the dict as the call leaves it
  and the streams after the call.
\<close>

fun print_key_loop :: "(pystr \<times> pystr) list \<Rightarrow> dict \<Rightarrow> io \<Rightarrow> io" where
  "print_key_loop [] properties io = io"
| "print_key_loop ((key, label) # later) properties io =
     (let val = (case map_of properties key of None \<Rightarrow> not_specified | Some v \<Rightarrow> v)
      in print_key_loop later properties (print (format_width 14 label @ ascii '': '' @ val) io))"

definition print_key_properties :: "dict \<Rightarrow> io \<Rightarrow> dict \<times> io" where
  "print_key_properties properties io =
     (properties, print [] (print_key_loop keys properties (print key_header io)))"

text \<open>
  Lines 89 to 91: \<open>sorted\<close> is stable, so \<open>sort_key\<close> is its model; \<open>properties[name]\<close>
  raises \<open>KeyError\<close> on a name that is no key, and what was printed before stays printed.
\<close>

fun print_all_loop :: "pystr list \<Rightarrow> dict \<Rightarrow> io \<Rightarrow> (exn + unit) \<times> io" where
  "print_all_loop [] properties io = (Inr (), io)"
| "print_all_loop (name # later) properties io =
     (case map_of properties name of
        None \<Rightarrow> (Inl (KeyError name), io)
      | Some val \<Rightarrow> print_all_loop later properties (print (name @ ascii '' = '' @ val) io))"

definition print_all_properties ::
  "(pystr \<Rightarrow> pystr) \<Rightarrow> dict \<Rightarrow> io \<Rightarrow> (exn + unit) \<times> dict \<times> io" where
  "print_all_properties lower properties io =
     (case print_all_loop (sort_key lower (map fst properties)) properties (print all_header io) of
        (r, io') \<Rightarrow> (r, properties, io'))"

section \<open>main\<close>

definition not_a_file :: "pystr \<Rightarrow> pystr" where
  "not_a_file path =
     [1060, 1072, 1081, 1083, 32, 34] @ path @
     [34, 32, 1085, 1077, 32, 1085, 1072, 1081, 1076, 1077, 1085, 32, 1080, 1083, 1080, 32,
      1085, 1077, 32, 1103, 1074, 1083, 1103, 1077, 1090, 1089, 1103, 32, 1092, 1072, 1081,
      1083, 1086, 1084, 46, 10]"

definition empty_table :: pystr where
  "empty_table =
     [1058, 1072, 1073, 1083, 1080, 1094, 1072, 32] @ ascii ''Property'' @
     [32, 1085, 1077, 32, 1085, 1072, 1081, 1076, 1077, 1085, 1072, 32, 1080, 1083, 1080, 32,
      1085, 1077, 32, 1089, 1086, 1076, 1077, 1088, 1078, 1080, 1090, 32, 1079, 1072, 1087,
      1080, 1089, 1077, 1081, 46, 10]"

definition msi_failed :: "pystr \<Rightarrow> pystr" where
  "msi_failed e =
     [1054, 1096, 1080, 1073, 1082, 1072, 32, 1087, 1088, 1080, 32, 1095, 1090, 1077, 1085,
      1080, 1080, 32, 1092, 1072, 1081, 1083, 1072, 32] @ ascii ''MSI'' @
     [58, 32, 1090, 1072, 1073, 1083, 1080, 1094, 1072, 32] @ ascii ''Property'' @
     [32, 1085, 1077, 1076, 1086, 1089, 1090, 1091, 1087, 1085, 1072, 32, 1080, 1083, 1080,
      32, 1092, 1072, 1081, 1083, 32, 1087, 1086, 1074, 1088, 1077, 1078, 1076, 1077, 1085,
      46, 10, 1055, 1086, 1076, 1088, 1086, 1073, 1085, 1077, 1077, 58, 32] @ e @ [10]"

definition unexpected :: "pystr \<Rightarrow> pystr" where
  "unexpected e =
     [1053, 1077, 1087, 1088, 1077, 1076, 1074, 1080, 1076, 1077, 1085, 1085, 1072, 1103, 32,
      1086, 1096, 1080, 1073, 1082, 1072, 58, 32] @ e @ [10]"

text \<open>
  The two \<open>except\<close> clauses of lines 123 to 132, in their order: \<open>MSIError\<close> first, then
  every other \<open>Exception\<close>.
\<close>

fun handle_exn :: "world \<Rightarrow> exn \<Rightarrow> io \<Rightarrow> int \<times> io" where
  "handle_exn w (MSIError m) io = (2, stderr_write (msi_failed m) io)"
| "handle_exn w e io = (3, stderr_write (unexpected (str_exn (repr w) e)) io)"

text \<open>A run starts with nothing written to either stream.\<close>

definition start :: io where
  "start = \<lparr>stdout = [], stderr = []\<rparr>"

definition main :: "pystr option \<Rightarrow> world \<Rightarrow> int \<times> io" where
  "main positional w =
     (let path = msi_path (parse_args positional) in
      if \<not> os_path_exists w path \<or> \<not> os_path_isfile w path
      then (1, stderr_write (not_a_file path) start)
      else
        (case read_msi_properties w path of
           Inl e \<Rightarrow> handle_exn w e start
         | Inr properties \<Rightarrow>
             if properties = [] then (2, stderr_write empty_table start)
             else
               (case print_key_properties properties start of
                  (properties1, io1) \<Rightarrow>
                    (case print_all_properties (str_lower w) properties1 io1 of
                       (Inl e, properties2, io2) \<Rightarrow> handle_exn w e io2
                     | (Inr _, properties2, io2) \<Rightarrow> (0, io2)))))"

section \<open>Notions used to state the properties\<close>

text \<open>
  The reporter is the two calls of lines 116 and 119, one after the other on the same
  dict.
\<close>

definition reporter :: "(pystr \<Rightarrow> pystr) \<Rightarrow> dict \<Rightarrow> io \<Rightarrow> (exn + unit) \<times> dict \<times> io" where
  "reporter lower properties io =
     (case print_key_properties properties io of
        (properties1, io1) \<Rightarrow> print_all_properties lower properties1 io1)"

text \<open>
  The report as the specification describes it: lines of text, each ended by a newline;
  a line for a well-known key with its value or the placeholder; a line for an entry.
\<close>

definition unlines :: "pystr list \<Rightarrow> pystr" where
  "unlines ls = concat (map (\<lambda>l. l @ [10]) ls)"

definition key_line :: "dict \<Rightarrow> pystr \<Rightarrow> pystr" where
  "key_line properties k =
     format_width 14 k @ ascii '': '' @
     (case map_of properties k of None \<Rightarrow> not_specified | Some v \<Rightarrow> v)"

definition entry_line :: "pystr \<times> pystr \<Rightarrow> pystr" where
  "entry_line e = fst e @ ascii '' = '' @ snd e"

text \<open>
  The rows of the query as the library hands them out. \<open>row_of\<close> is the row of one call of
  \<open>Fetch\<close> when the call and the two calls of \<open>GetString\<close> on its record all return;
  \<open>rows_of\<close> are the rows up to the first call that raises, \<open>fetch_failure\<close> is what that
  call raises. \<open>scan\<close> is the linear scan of rows into a dict.
\<close>

fun row_of :: "exn + msi_record \<Rightarrow> (pystr \<times> pystr) option" where
  "row_of (Inl e) = None"
| "row_of (Inr rcd) =
     (case GetString rcd 1 of
        Inl e \<Rightarrow> None
      | Inr name \<Rightarrow> (case GetString rcd 2 of Inl e \<Rightarrow> None | Inr val \<Rightarrow> Some (name, val)))"

fun rows_of :: "(exn + msi_record) list \<Rightarrow> (pystr \<times> pystr) list" where
  "rows_of [] = []"
| "rows_of (f # later) = (case row_of f of None \<Rightarrow> [] | Some row \<Rightarrow> row # rows_of later)"

fun fetch_failure :: "(exn + msi_record) list \<Rightarrow> exn option" where
  "fetch_failure [] = None"
| "fetch_failure (Inl e # later) = Some e"
| "fetch_failure (Inr rcd # later) =
     (case GetString rcd 1 of
        Inl e \<Rightarrow> Some e
      | Inr name \<Rightarrow> (case GetString rcd 2 of Inl e \<Rightarrow> Some e | Inr val \<Rightarrow> fetch_failure later))"

fun scan :: "(pystr \<times> pystr) list \<Rightarrow> dict \<Rightarrow> dict" where
  "scan [] d = d"
| "scan ((name, val) # rows) d = scan rows (setitem d name val)"

text \<open>
  For a path: the first exception that a call of the library raises when the database is
  opened, the query \<open>SELECT * FROM Property\<close> is opened and executed and its rows are
  fetched, if there is one; and the rows fetched.
\<close>

definition library_failure :: "world \<Rightarrow> pystr \<Rightarrow> exn option" where
  "library_failure w path =
     (case msilib_OpenDatabase w path of
        Inl e \<Rightarrow> Some e
      | Inr db \<Rightarrow>
          (case OpenView db (ascii ''SELECT * FROM Property'') of
             Inl e \<Rightarrow> Some e
           | Inr view \<Rightarrow>
               (case Execute view of
                  Inl e \<Rightarrow> Some e
                | Inr _ \<Rightarrow> fetch_failure (Fetch view))))"

definition property_rows :: "world \<Rightarrow> pystr \<Rightarrow> (pystr \<times> pystr) list" where
  "property_rows w path =
     (case msilib_OpenDatabase w path of
        Inl e \<Rightarrow> []
      | Inr db \<Rightarrow>
          (case OpenView db (ascii ''SELECT * FROM Property'') of
             Inl e \<Rightarrow> []
           | Inr view \<Rightarrow> rows_of (Fetch view)))"

section \<open>Concrete runs\<close>

text \<open>
  Inputs for the concrete instances below. On strings of ASCII characters \<open>str.lower\<close>
  maps \<open>A\<close> to \<open>Z\<close> onto \<open>a\<close> to \<open>z\<close> and keeps the rest, and \<open>repr\<close> of a string of
  letters puts it between single quotes. \<open>fetched row\<close> is a call of \<open>Fetch\<close> that
  returns a record with the two columns of \<open>row\<close>; \<open>package rows\<close> is what
  \<open>OpenDatabase\<close> returns on a package whose Property table holds \<open>rows\<close>;
  \<open>desktop files\<close> is a machine on which exactly the paths of \<open>files\<close> are regular
  files, each with what \<open>OpenDatabase\<close> does on it.
\<close>

definition ascii_lower :: "pystr \<Rightarrow> pystr" where
  "ascii_lower s = map (\<lambda>c. if 65 \<le> c \<and> c \<le> 90 then c + 32 else c) s"

definition quote_repr :: "pystr \<Rightarrow> pystr" where
  "quote_repr s = [39] @ s @ [39]"

definition fetched :: "pystr \<times> pystr \<Rightarrow> exn + msi_record" where
  "fetched row = Inr (Record (\<lambda>i. Inr (if i = 1 then fst row else if i = 2 then snd row else [])))"

definition package :: "(pystr \<times> pystr) list \<Rightarrow> exn + database" where
  "package rows = Inr (Database (\<lambda>sql. Inr (View (Inr ()) (map fetched rows))))"

definition desktop :: "(pystr \<times> (exn + database)) list \<Rightarrow> world" where
  "desktop files =
     \<lparr>str_lower = ascii_lower,
      repr = quote_repr,
      os_path_exists = (\<lambda>p. map_of files p \<noteq> None),
      os_path_isfile = (\<lambda>p. map_of files p \<noteq> None),
      msilib_OpenDatabase =
        (\<lambda>p. case map_of files p of None \<Rightarrow> Inl (Exception []) | Some r \<Rightarrow> r)\<rparr>"

section \<open>Auxiliary facts\<close>

subsection \<open>The dict operations\<close>

lemma map_of_setitem: "map_of (setitem d k v) = (map_of d)(k \<mapsto> v)"
  by (induction d k v rule: setitem.induct) auto

lemma keys_setitem:
  "map fst (setitem d k v) = (if k \<in> fst ` set d then map fst d else map fst d @ [k])"
  by (induction d k v rule: setitem.induct) auto

lemma distinct_setitem: "distinct (map fst d) \<Longrightarrow> distinct (map fst (setitem d k v))"
  by (simp add: keys_setitem)

lemma setitem_fresh: "k \<notin> fst ` set d \<Longrightarrow> setitem d k v = d @ [(k, v)]"
  by (induction d k v rule: setitem.induct) auto

lemma map_of_scan: "map_of (scan rows d) = map_of (rev rows @ d)"
  by (induction rows d rule: scan.induct) (auto simp: map_of_setitem fun_eq_iff map_add_def split: option.splits)

lemma distinct_scan: "distinct (map fst d) \<Longrightarrow> distinct (map fst (scan rows d))"
  by (induction rows d rule: scan.induct) (auto simp: distinct_setitem)

lemma scan_distinct: "distinct (map fst (d @ rows)) \<Longrightarrow> scan rows d = d @ rows"
  by (induction rows d rule: scan.induct) (auto simp: setitem_fresh)

subsection \<open>The fetch loop\<close>

lemma fetch_loop_eq:
  "fetch_loop fs d = (case fetch_failure fs of None \<Rightarrow> Inr (scan (rows_of fs) d) | Some e \<Rightarrow> Inl e)"
  by (induction fs d rule: fetch_loop.induct) (auto split: sum.splits option.splits)

lemma reraise_MSIError: "(\<exists>m. reraise e = MSIError m) = (\<exists>m. e = MSIError m)"
  by (cases e) auto

lemma reraise_other_iff: "(\<forall>m. e' \<noteq> MSIError m) \<Longrightarrow> (reraise e = e') = (e = e')"
  by (cases e) auto

subsection \<open>The output of the reporter\<close>


lemma unlines_Cons: "unlines (x # xs) = x @ [10] @ unlines xs"
  by (simp add: unlines_def)

lemma unlines_Nil: "unlines [] = []"
  by (simp add: unlines_def)

lemma print_key_loop_eq:
  "print_key_loop ks properties io =
     io\<lparr>stdout := stdout io @
        unlines (map (\<lambda>(key, label). format_width 14 label @ ascii '': '' @
          (case map_of properties key of None \<Rightarrow> not_specified | Some v \<Rightarrow> v)) ks)\<rparr>"
  by (induction ks properties io rule: print_key_loop.induct)
     (simp_all add: print_def unlines_Cons unlines_Nil)

lemma print_key_properties_eq:
  "print_key_properties properties io =
     (properties,
      io\<lparr>stdout := stdout io @
        unlines (key_header # map (key_line properties)
          [ascii ''ProductName'', ascii ''ProductCode'', ascii ''ProductVersion'',
           ascii ''Manufacturer''] @ [[]])\<rparr>)"
  by (simp add: print_key_properties_def print_key_loop_eq keys_def key_line_def print_def
      unlines_Cons unlines_Nil)

lemma print_all_loop_ok:
  "set names \<subseteq> fst ` set properties \<Longrightarrow>
   print_all_loop names properties io =
     (Inr (), io\<lparr>stdout := stdout io @
        unlines (map (\<lambda>name. name @ ascii '' = '' @ the (map_of properties name)) names)\<rparr>)"
proof (induction names properties io rule: print_all_loop.induct)
  case (1 properties io)
  then show ?case by (simp add: unlines_Nil)
next
  case (2 name later properties io)
  from "2.prems" have "name \<in> fst ` set properties" by simp
  then obtain val where val: "map_of properties name = Some val"
    by (metis map_of_eq_None_iff not_Some_eq)
  from "2.prems" have "set later \<subseteq> fst ` set properties" by simp
  with "2.IH"[OF val] val show ?case
    by (simp add: print_def unlines_Cons)
qed

lemma insort_key_map:
  "insort_key f (g x) (map g xs) = map g (insort_key (\<lambda>e. f (g e)) x xs)"
  by (induction xs) auto

lemma sort_key_map: "sort_key f (map g xs) = map g (sort_key (\<lambda>e. f (g e)) xs)"
  by (induction xs) (auto simp: insort_key_map)

lemma entry_lines:
  assumes "distinct (map fst properties)" and "set es \<subseteq> set properties"
  shows "map (\<lambda>name. name @ ascii '' = '' @ the (map_of properties name)) (map fst es) =
         map entry_line es"
  using assms by (auto simp: entry_line_def)


lemma print_all_properties_eq:
  assumes "distinct (map fst properties)"
  shows "print_all_properties lower properties io =
     (Inr (), properties,
      io\<lparr>stdout := stdout io @
        unlines (all_header # map entry_line (sort_key (\<lambda>e. lower (fst e)) properties))\<rparr>)"
proof -
  let ?es = "sort_key (\<lambda>e. lower (fst e)) properties"
  have sub: "set ?es \<subseteq> set properties" by simp
  have keys: "set (map fst ?es) \<subseteq> fst ` set properties" by simp
  have "print_all_properties lower properties io =
     (case print_all_loop (map fst ?es) properties (print all_header io) of
        (r, io') \<Rightarrow> (r, properties, io'))"
    by (simp add: print_all_properties_def sort_key_map)
  also have "\<dots> = (Inr (), properties,
      (print all_header io)\<lparr>stdout := stdout (print all_header io) @ unlines (map entry_line ?es)\<rparr>)"
    unfolding print_all_loop_ok[OF keys] entry_lines[OF assms sub] by simp
  finally show ?thesis
    by (simp add: print_def unlines_Cons)
qed


subsection \<open>The branches of main\<close>

lemma fetch_loop_distinct:
  "fetch_loop fs d = Inr properties \<Longrightarrow> distinct (map fst d) \<Longrightarrow> distinct (map fst properties)"
  by (auto simp: fetch_loop_eq distinct_scan split: option.splits)

lemma read_msi_properties_distinct:
  "read_msi_properties w path = Inr properties \<Longrightarrow> distinct (map fst properties)"
  by (auto simp: read_msi_properties_def dest: fetch_loop_distinct split: sum.splits)


lemma main_eq:
  "main positional w =
     (let path = msi_path (parse_args positional) in
      if \<not> (os_path_exists w path \<and> os_path_isfile w path)
      then (1, \<lparr>stdout = [], stderr = not_a_file path\<rparr>)
      else
        (case read_msi_properties w path of
           Inl e \<Rightarrow> handle_exn w e start
         | Inr properties \<Rightarrow>
             if properties = [] then (2, \<lparr>stdout = [], stderr = empty_table\<rparr>)
             else (0, snd (snd (reporter (str_lower w) properties start)))))"
proof -
  have "\<And>properties. read_msi_properties w (msi_path (parse_args positional)) = Inr properties \<Longrightarrow>
     (case print_key_properties properties start of
        (properties1, io1) \<Rightarrow>
          (case print_all_properties (str_lower w) properties1 io1 of
             (Inl e, properties2, io2) \<Rightarrow> handle_exn w e io2
           | (Inr u, properties2, io2) \<Rightarrow> (0, io2))) =
     (0, snd (snd (reporter (str_lower w) properties start)))"
    by (simp add: reporter_def read_msi_properties_distinct print_key_properties_eq
        print_all_properties_eq)
  then show ?thesis
    by (simp add: main_def Let_def stderr_write_def start_def split: sum.splits)
qed

text \<open>Unfolding the definitions of a concrete run.\<close>

lemmas run_simps =
  desktop_def package_def fetched_def read_msi_properties_def open_property_view_def
  parse_args_def ascii_def

section \<open>The exit code of main\<close>



section \<open>What the reporter prints\<close>



section \<open>The listing and the order of the rows\<close>

lemma filter_inj_singleton:
  "distinct xs \<Longrightarrow> inj_on f (set xs) \<Longrightarrow> k \<in> set xs \<Longrightarrow> filter (\<lambda>x. f k = f x) xs = [k]"
proof (induction xs)
  case Nil
  then show ?case by simp
next
  case (Cons x xs)
  show ?case
  proof (cases "k = x")
    case True
    with Cons.prems have "\<forall>y\<in>set xs. f k \<noteq> f y"
      by (auto simp: inj_on_def)
    then have "filter (\<lambda>x. f k = f x) xs = []"
      by (simp add: filter_empty_conv)
    with True show ?thesis by simp
  next
    case False
    with Cons.prems have "k \<in> set xs" "f k \<noteq> f x"
      by (auto simp: inj_on_def)
    with Cons show ?thesis by simp
  qed
qed

lemma sort_key_permutation:
  assumes "distinct xs" and "mset xs = mset ys" and "inj_on f (set xs)"
  shows "sort_key f xs = sort_key f ys"
proof (rule properties_for_sort_key [symmetric])
  show "mset (sort_key f xs) = mset ys"
    using assms(2) by simp
  show "sorted (map f (sort_key f xs))"
    by (rule sorted_sort_key)
  fix k
  assume "k \<in> set (sort_key f xs)"
  then have k: "k \<in> set xs" by simp
  have ys: "distinct ys" "set ys = set xs"
    using assms(1,2) by (metis mset_eq_imp_distinct_iff, metis mset_eq_setD)
  have "filter (\<lambda>x. f k = f x) (sort_key f xs) = sort_key f (filter (\<lambda>x. f k = f x) xs)"
    by (rule filter_sort)
  also have "\<dots> = [k]"
    by (simp add: filter_inj_singleton [OF assms(1,3) k])
  also have "\<dots> = filter (\<lambda>x. f k = f x) ys"
    using filter_inj_singleton [of ys f k] ys assms(3) k by simp
  finally show "filter (\<lambda>x. f k = f x) (sort_key f xs) = filter (\<lambda>x. f k = f x) ys" .
qed

lemma fetch_loop_rows:
  "fetch_loop fs [] = Inr d \<Longrightarrow> distinct (map fst (rows_of fs)) \<Longrightarrow> d = rows_of fs"
  using scan_distinct [of "[]" "rows_of fs"]
  by (auto simp: fetch_loop_eq split: option.splits)

text \<open>
  Claim C3, as amended. Take two sequences of fetched rows with unique names that are
  permutations of each other, and let no two distinct names have the same lower-cased
  form. Then the full listing printed for the dict of the one is the full listing
  printed for the dict of the other; and the listing holds the entries in
  non-decreasing order of the lower-cased name.
\<close>

theorem listing_insertion_order:
  assumes "fetch_loop fs1 [] = Inr d1" and "fetch_loop fs2 [] = Inr d2"
      and "distinct (map fst (rows_of fs1))"
      and "mset (rows_of fs1) = mset (rows_of fs2)"
      and "inj_on lower (fst ` set (rows_of fs1))"
  shows "snd (snd (print_all_properties lower d1 io)) = snd (snd (print_all_properties lower d2 io))
    \<and> print_all_properties lower d1 io =
        (Inr (), d1,
         io\<lparr>stdout := stdout io @
           unlines (all_header # map entry_line (sort_key (\<lambda>e. lower (fst e)) d1))\<rparr>)
    \<and> sorted (map (\<lambda>e. lower (fst e)) (sort_key (\<lambda>e. lower (fst e)) d1))"
proof -
  let ?f = "\<lambda>e. lower (fst e)"
  have "mset (map fst (rows_of fs1)) = mset (map fst (rows_of fs2))"
    using assms(4) by (metis mset_map)
  with assms(3) have dist2: "distinct (map fst (rows_of fs2))"
    by (metis mset_eq_imp_distinct_iff)
  have d1: "d1 = rows_of fs1" and d2: "d2 = rows_of fs2"
    using assms(1,2,3) dist2 by (auto dest: fetch_loop_rows)
  have "inj_on fst (set d1)" "distinct d1"
    using assms(3) unfolding d1 by (auto simp: distinct_map)
  moreover have "inj_on ?f (set d1)"
    using assms(5) \<open>inj_on fst (set d1)\<close> unfolding d1
    by (auto simp: inj_on_def)
  ultimately have "sort_key ?f d1 = sort_key ?f d2"
    using assms(4) unfolding d1 d2 by (intro sort_key_permutation)
  then show ?thesis
    using assms(3) dist2 unfolding d1 d2
    by (simp add: print_all_properties_eq sorted_sort_key)
qed

theorem listing_insertion_order_witness:
  "snd (snd (print_all_properties ascii_lower [(ascii ''b'', ascii ''1''), (ascii ''A'', ascii ''2'')] start)) =
   snd (snd (print_all_properties ascii_lower [(ascii ''A'', ascii ''2''), (ascii ''b'', ascii ''1'')] start))"
proof -
  let ?r1 = "[(ascii ''b'', ascii ''1''), (ascii ''A'', ascii ''2'')]"
  let ?r2 = "[(ascii ''A'', ascii ''2''), (ascii ''b'', ascii ''1'')]"
  have f: "fetch_loop (map fetched ?r1) [] = Inr ?r1" "fetch_loop (map fetched ?r2) [] = Inr ?r2"
    by (simp_all add: fetched_def ascii_def)
  have r: "rows_of (map fetched ?r1) = ?r1" "rows_of (map fetched ?r2) = ?r2"
    by (simp_all add: fetched_def)
  have d: "distinct (map fst (rows_of (map fetched ?r1)))"
    unfolding r by (simp add: ascii_def)
  have m: "mset (rows_of (map fetched ?r1)) = mset (rows_of (map fetched ?r2))"
    unfolding r by (simp add: ascii_def)
  have i: "inj_on ascii_lower (fst ` set (rows_of (map fetched ?r1)))"
    unfolding r by (simp add: ascii_def ascii_lower_def)
  from listing_insertion_order [OF f d m i, of start] show ?thesis
    by blast
qed

text \<open>
  Without the condition on the lower-cased names the listings differ: \<open>sorted\<close> is
  stable, so the names \<open>a\<close> and \<open>A\<close> are listed in the order of their rows.
\<close>

theorem listing_insertion_order_counterexample:
  "distinct (map fst [(ascii ''a'', ascii ''1''), (ascii ''A'', ascii ''2'')])
   \<and> mset [(ascii ''a'', ascii ''1''), (ascii ''A'', ascii ''2'')] =
      mset [(ascii ''A'', ascii ''2''), (ascii ''a'', ascii ''1'')]
   \<and> fetch_loop (map fetched [(ascii ''a'', ascii ''1''), (ascii ''A'', ascii ''2'')]) [] =
      Inr [(ascii ''a'', ascii ''1''), (ascii ''A'', ascii ''2'')]
   \<and> fetch_loop (map fetched [(ascii ''A'', ascii ''2''), (ascii ''a'', ascii ''1'')]) [] =
      Inr [(ascii ''A'', ascii ''2''), (ascii ''a'', ascii ''1'')]
   \<and> map_of [(ascii ''a'', ascii ''1''), (ascii ''A'', ascii ''2'')] =
      map_of [(ascii ''A'', ascii ''2''), (ascii ''a'', ascii ''1'')]
   \<and> stdout (snd (snd (print_all_properties ascii_lower
        [(ascii ''a'', ascii ''1''), (ascii ''A'', ascii ''2'')] start))) =
      unlines [all_header, ascii ''a = 1'', ascii ''A = 2'']
   \<and> stdout (snd (snd (print_all_properties ascii_lower
        [(ascii ''A'', ascii ''2''), (ascii ''a'', ascii ''1'')] start))) =
      unlines [all_header, ascii ''A = 2'', ascii ''a = 1'']
   \<and> unlines [all_header, ascii ''a = 1'', ascii ''A = 2''] \<noteq>
      unlines [all_header, ascii ''A = 2'', ascii ''a = 1'']"
proof -
  have "map_of [(ascii ''a'', ascii ''1''), (ascii ''A'', ascii ''2'')] =
      map_of [(ascii ''A'', ascii ''2''), (ascii ''a'', ascii ''1'')]"
    by (auto simp: fun_eq_iff ascii_def)
  then show ?thesis
    by (simp add: fetched_def ascii_def ascii_lower_def print_all_properties_def print_def
        start_def unlines_def)
qed

section \<open>A path that is not a regular file\<close>

text \<open>
  Claim C4. When the path does not exist or is not a regular file, \<open>main\<close> returns 1,
  standard error holds the message of line 102, which is not empty, and nothing is
  written to standard output.
\<close>

theorem main_missing_file:
  assumes "path = msi_path (parse_args positional)"
      and "\<not> (os_path_exists w path \<and> os_path_isfile w path)"
  shows "main positional w = (1, \<lparr>stdout = [], stderr = not_a_file path\<rparr>) \<and> not_a_file path \<noteq> []"
  using assms by (simp add: main_eq not_a_file_def)

theorem main_missing_file_witness:
  "main (Some (ascii ''setup.msi'')) (desktop [(ascii ''pokerok.msi'', package [])]) =
     (1, \<lparr>stdout = [], stderr = not_a_file (ascii ''setup.msi'')\<rparr>)
   \<and> not_a_file (ascii ''setup.msi'') \<noteq> []"
proof -
  have p: "ascii ''setup.msi'' = msi_path (parse_args (Some (ascii ''setup.msi'')))"
    by (simp add: parse_args_def)
  have f: "\<not> (os_path_exists (desktop [(ascii ''pokerok.msi'', package [])]) (ascii ''setup.msi'')
      \<and> os_path_isfile (desktop [(ascii ''pokerok.msi'', package [])]) (ascii ''setup.msi''))"
    by (simp add: run_simps)
  from main_missing_file [OF p f] show ?thesis .
qed

section \<open>The contract of read_msi_properties\<close>

text \<open>
  Claim C5. For every path, \<open>read_msi_properties\<close> returns exactly when no call of the
  library raises, and then it returns the dict that the linear scan of the rows of the
  query builds (each name bound to the value of its last row); it raises \<open>MSIError\<close>
  exactly when the first call of the library that raises, raises \<open>MSIError\<close>; any other
  exception of the library passes through unchanged.
\<close>

theorem read_msi_properties_contract:
  "(library_failure w path = None \<longrightarrow>
      read_msi_properties w path = Inr (scan (property_rows w path) [])
      \<and> map_of (scan (property_rows w path) []) = map_of (rev (property_rows w path))
      \<and> distinct (map fst (scan (property_rows w path) [])))
   \<and> ((\<exists>properties. read_msi_properties w path = Inr properties) = (library_failure w path = None))
   \<and> ((\<exists>m. read_msi_properties w path = Inl (MSIError m)) =
        (\<exists>m. library_failure w path = Some (MSIError m)))
   \<and> (\<forall>e. (\<forall>m. e \<noteq> MSIError m) \<longrightarrow>
        (read_msi_properties w path = Inl e) = (library_failure w path = Some e))"
proof -
  have "library_failure w path = None \<Longrightarrow>
      read_msi_properties w path = Inr (scan (property_rows w path) [])"
    unfolding read_msi_properties_def library_failure_def property_rows_def
      open_property_view_def fetch_loop_eq
    by (auto split: sum.splits option.splits)
  moreover have "(\<exists>m. read_msi_properties w path = Inl (MSIError m)) =
        (\<exists>m. library_failure w path = Some (MSIError m))"
    "(\<exists>properties. read_msi_properties w path = Inr properties) = (library_failure w path = None)"
    "\<And>e. (\<forall>m. e \<noteq> MSIError m) \<Longrightarrow>
        (read_msi_properties w path = Inl e) = (library_failure w path = Some e)"
    unfolding read_msi_properties_def library_failure_def property_rows_def
      open_property_view_def fetch_loop_eq
    by (auto split: sum.splits option.splits simp: reraise_MSIError reraise_other_iff)
  ultimately show ?thesis
    by (simp add: map_of_scan distinct_scan)
qed

theorem read_msi_properties_contract_witness:
  "read_msi_properties
     (desktop [(ascii ''pokerok.msi'',
        package [(ascii ''ProductName'', ascii ''X''), (ascii ''ProductVersion'', ascii ''1.0'')])])
     (ascii ''pokerok.msi'') =
   Inr [(ascii ''ProductName'', ascii ''X''), (ascii ''ProductVersion'', ascii ''1.0'')]
   \<and> (\<exists>m. read_msi_properties (desktop [(ascii ''notes.txt'', Inl (MSIError (ascii ''not a package'')))])
        (ascii ''notes.txt'') = Inl (MSIError m))"
proof -
  let ?rows = "[(ascii ''ProductName'', ascii ''X''), (ascii ''ProductVersion'', ascii ''1.0'')]"
  let ?w = "desktop [(ascii ''pokerok.msi'', package ?rows)]"
  let ?v = "desktop [(ascii ''notes.txt'', Inl (MSIError (ascii ''not a package'')))]"
  have "library_failure ?w (ascii ''pokerok.msi'') = None"
    "property_rows ?w (ascii ''pokerok.msi'') = ?rows"
    "scan ?rows [] = ?rows"
    by (simp_all add: library_failure_def property_rows_def run_simps)
  with read_msi_properties_contract [of ?w "ascii ''pokerok.msi''"]
  have a: "read_msi_properties ?w (ascii ''pokerok.msi'') = Inr ?rows"
    by simp
  have "library_failure ?v (ascii ''notes.txt'') = Some (MSIError (ascii ''not a package''))"
    by (simp add: library_failure_def run_simps)
  with read_msi_properties_contract [of ?v "ascii ''notes.txt''"]
  have b: "\<exists>m. read_msi_properties ?v (ascii ''notes.txt'') = Inl (MSIError m)"
    by simp
  from a b show ?thesis by blast
qed

section \<open>The command line\<close>

text \<open>
  Claim C6. The namespace has the one field \<open>msi_path\<close>; it is the positional argument
  when the command line gives one, and \<open>pokerok.msi\<close> when it is omitted, so a run without
  the argument is the run on \<open>pokerok.msi\<close>.
\<close>

theorem parse_args_default:
  "msi_path (parse_args None) = ascii ''pokerok.msi''
   \<and> msi_path (parse_args (Some p)) = p
   \<and> main None w = main (Some (ascii ''pokerok.msi'')) w"
  by (simp add: parse_args_def main_def)

theorem parse_args_default_witness:
  "msi_path (parse_args None) = ascii ''pokerok.msi''
   \<and> msi_path (parse_args (Some (ascii ''setup.msi''))) = ascii ''setup.msi''
   \<and> main None (desktop []) = main (Some (ascii ''pokerok.msi'')) (desktop [])"
  using parse_args_default [of "ascii ''setup.msi''" "desktop []"] .

section \<open>The reporter raises nothing\<close>



section \<open>The reporter leaves the dict as it is\<close>

text \<open>
  Claim C8. Each function of the reporter, and the two in sequence, leave the dict that
  \<open>read_msi_properties\<close> returned unchanged.
\<close>

theorem reporter_frame:
  assumes "read_msi_properties w path = Inr properties"
  shows "fst (print_key_properties properties io) = properties
    \<and> fst (snd (print_all_properties lower properties io)) = properties
    \<and> fst (snd (reporter lower properties io)) = properties"
  by (simp add: print_key_properties_def print_all_properties_def reporter_def split: prod.splits)

theorem reporter_frame_witness:
  "fst (print_key_properties [(ascii ''ProductName'', ascii ''X'')] start) =
     [(ascii ''ProductName'', ascii ''X'')]
   \<and> fst (snd (print_all_properties ascii_lower [(ascii ''ProductName'', ascii ''X'')] start)) =
     [(ascii ''ProductName'', ascii ''X'')]
   \<and> fst (snd (reporter ascii_lower [(ascii ''ProductName'', ascii ''X'')] start)) =
     [(ascii ''ProductName'', ascii ''X'')]"
proof -
  have "read_msi_properties
      (desktop [(ascii ''pokerok.msi'', package [(ascii ''ProductName'', ascii ''X'')])])
      (ascii ''pokerok.msi'') = Inr [(ascii ''ProductName'', ascii ''X'')]"
    by (simp add: run_simps)
  from reporter_frame [OF this] show ?thesis .
qed

section \<open>Rows with the same name\<close>

lemma map_of_last_row:
  "name \<notin> fst ` set after \<Longrightarrow> map_of (rev (before @ (name, v) # after)) name = Some v"
  by (simp add: map_of_eq_None_iff [THEN iffD2] map_add_def split: option.splits)

lemma count_key:
  "distinct (map fst d) \<Longrightarrow> map_of d k = Some v \<Longrightarrow> filter (\<lambda>e. fst e = k) d = [(k, v)]"
  by (induction d) (auto split: if_splits simp: filter_empty_conv rev_image_eqI)

text \<open>
  Claim C9. When no call of the library raises and the rows fetched hold a row
  \<open>(name, v)\<close> with no later row of that name, the dict returned has exactly one entry
  for \<open>name\<close>, and its value is \<open>v\<close>, whatever rows of that name came before.
\<close>

theorem last_row_wins:
  assumes "library_failure w path = None"
      and "property_rows w path = before @ (name, v) # after"
      and "name \<notin> fst ` set after"
  shows "\<exists>properties. read_msi_properties w path = Inr properties
           \<and> filter (\<lambda>e. fst e = name) properties = [(name, v)]"
proof -
  let ?d = "scan (property_rows w path) []"
  from assms(1) have "read_msi_properties w path = Inr ?d"
    unfolding read_msi_properties_def library_failure_def property_rows_def
      open_property_view_def fetch_loop_eq
    by (auto split: sum.splits option.splits)
  moreover have "map_of ?d name = Some v"
    unfolding assms(2) map_of_scan append_Nil2 by (rule map_of_last_row [OF assms(3)])
  then have "filter (\<lambda>e. fst e = name) ?d = [(name, v)]"
    by (intro count_key distinct_scan) simp_all
  ultimately show ?thesis by blast
qed

theorem last_row_wins_witness:
  "\<exists>properties.
     read_msi_properties
       (desktop [(ascii ''pokerok.msi'',
          package [(ascii ''A'', ascii ''1''), (ascii ''B'', ascii ''2''), (ascii ''A'', ascii ''3'')])])
       (ascii ''pokerok.msi'') = Inr properties
     \<and> filter (\<lambda>e. fst e = ascii ''A'') properties = [(ascii ''A'', ascii ''3'')]"
proof -
  let ?w = "desktop [(ascii ''pokerok.msi'',
          package [(ascii ''A'', ascii ''1''), (ascii ''B'', ascii ''2''), (ascii ''A'', ascii ''3'')])]"
  have a: "library_failure ?w (ascii ''pokerok.msi'') = None"
    by (simp add: library_failure_def run_simps)
  have b: "property_rows ?w (ascii ''pokerok.msi'') =
      [(ascii ''A'', ascii ''1''), (ascii ''B'', ascii ''2'')] @ (ascii ''A'', ascii ''3'') # []"
    by (simp add: property_rows_def run_simps)
  have c: "ascii ''A'' \<notin> fst ` set []"
    by simp
  from last_row_wins [OF a b c] show ?thesis .
qed

section \<open>The placeholder\<close>

text \<open>
  Claim C10. The line of a well-known key ends with the placeholder when the key is
  absent from the dict, and with the value when the key is present; a key present with
  the empty string gets the line that ends after the colon and the space, which is not
  the line with the placeholder.
\<close>

theorem placeholder_only_when_absent:
  "print_key_properties properties io =
     (properties,
      io\<lparr>stdout := stdout io @
        unlines (key_header # map (key_line properties)
          [ascii ''ProductName'', ascii ''ProductCode'', ascii ''ProductVersion'',
           ascii ''Manufacturer''] @ [[]])\<rparr>)
   \<and> (map_of properties k = None \<longrightarrow>
        key_line properties k = format_width 14 k @ ascii '': '' @ not_specified)
   \<and> (\<forall>v. map_of properties k = Some v \<longrightarrow>
        key_line properties k = format_width 14 k @ ascii '': '' @ v)
   \<and> (map_of properties k = Some [] \<longrightarrow>
        key_line properties k = format_width 14 k @ ascii '': ''
        \<and> key_line properties k \<noteq> format_width 14 k @ ascii '': '' @ not_specified)"
  by (simp add: print_key_properties_eq key_line_def not_specified_def)

theorem placeholder_only_when_absent_witness:
  "print_key_properties [(ascii ''ProductName'', [])] start =
     ([(ascii ''ProductName'', [])],
      \<lparr>stdout = unlines
         [key_header,
          ascii ''ProductName   : '',
          ascii ''ProductCode   : '' @ not_specified,
          ascii ''ProductVersion: '' @ not_specified,
          ascii ''Manufacturer  : '' @ not_specified,
          []],
       stderr = []\<rparr>)"
proof -
  let ?d = "[(ascii ''ProductName'', [])]"
  have k: "key_line ?d (ascii ''ProductName'') = ascii ''ProductName   : ''"
    "key_line ?d (ascii ''ProductCode'') = ascii ''ProductCode   : '' @ not_specified"
    "key_line ?d (ascii ''ProductVersion'') = ascii ''ProductVersion: '' @ not_specified"
    "key_line ?d (ascii ''Manufacturer'') = ascii ''Manufacturer  : '' @ not_specified"
    by (simp_all add: key_line_def format_width_def ascii_def numeral_2_eq_2 numeral_3_eq_3)
  from placeholder_only_when_absent [of ?d start "ascii ''ProductName''"] show ?thesis
    by (simp add: k start_def)
qed

end
